theory Spec2Isabelle
  imports Main "HOL-Library.AList"
begin

section \<open>Python exceptions\<close>

text \<open>
  The exception classes that the script can meet. The first four are subclasses of
  \<open>OSError\<close>; \<open>OtherException\<close> stands for any further subclass of \<open>Exception\<close>
  (named by its class name, for example one defined by the rendering library). The last
  three derive from \<open>BaseException\<close> directly and are not instances of \<open>Exception\<close>.
\<close>

datatype pyclass =
    FileNotFoundError | NotADirectoryError | FileExistsError | PermissionError
  | ModuleNotFoundError | ImportError | OtherException string
  | KeyboardInterrupt | SystemExit | GeneratorExit

fun is_OSError :: "pyclass \<Rightarrow> bool" where
  "is_OSError FileNotFoundError = True"
| "is_OSError NotADirectoryError = True"
| "is_OSError FileExistsError = True"
| "is_OSError PermissionError = True"
| "is_OSError _ = False"

fun is_Exception :: "pyclass \<Rightarrow> bool" where
  "is_Exception KeyboardInterrupt = False"
| "is_Exception SystemExit = False"
| "is_Exception GeneratorExit = False"
| "is_Exception _ = True"

text \<open>An exception value: its class and the text that \<open>str(e)\<close> gives.\<close>

datatype pyexn = PyExn (cls: pyclass) (msg: string)

section \<open>The process state\<close>

text \<open>
  A path is the list of its components. The file system is a table from absolute paths to
  nodes, kept as an association list so that a directory can be enumerated. A directory
  carries one permission flag: whether this process may search it and create entries in it.
  A file carries its content.
\<close>

type_synonym path = "string list"

datatype node = File string | Dir bool

type_synonym filesystem = "(path \<times> node) list"

record world =
  fs :: filesystem
  cwd :: path
  sys_path :: "path list"
  out :: "string list"

text \<open>
  A computation either raises (\<open>Inl\<close>: the exception and the state in which it was raised)
  or returns (\<open>Inr\<close>: the value and the new state).
\<close>

type_synonym 'a result = "(pyexn \<times> world) + ('a \<times> world)"

definition print :: "string \<Rightarrow> world \<Rightarrow> world" where
  "print s w = w\<lparr>out := out w @ [s]\<rparr>"

definition path_str :: "path \<Rightarrow> string" where
  "path_str p = (if p = [] then ''/'' else concat (map (\<lambda>c. CHR ''/'' # c) p))"

definition rel_str :: "path \<Rightarrow> string" where
  "rel_str p = (if p = [] then ''.'' else tl (concat (map (\<lambda>c. CHR ''/'' # c) p)))"

section \<open>Operating system calls\<close>

text \<open>
  Resolution of a relative path: starting in directory \<open>d\<close>, every directory in which a
  component is looked up must exist, be a directory and be searchable. The last component
  itself is not inspected.
\<close>

fun walk :: "filesystem \<Rightarrow> path \<Rightarrow> string list \<Rightarrow> pyclass + path" where
  "walk t d [] = Inr d"
| "walk t d (c # cs) =
     (case map_of t d of
        None \<Rightarrow> Inl FileNotFoundError
      | Some (File _) \<Rightarrow> Inl NotADirectoryError
      | Some (Dir ok) \<Rightarrow> if ok then walk t (d @ [c]) cs else Inl PermissionError)"

text \<open>\<open>os.mkdir(rel)\<close>: the parent must resolve, the target must not exist.\<close>

definition os_mkdir :: "path \<Rightarrow> world \<Rightarrow> unit result" where
  "os_mkdir rel w =
     (case walk (fs w) (cwd w) rel of
        Inl c \<Rightarrow> Inl (PyExn c (rel_str rel), w)
      | Inr p \<Rightarrow>
          (case map_of (fs w) p of
             Some _ \<Rightarrow> Inl (PyExn FileExistsError (rel_str rel), w)
           | None \<Rightarrow>
               if rel = [] then Inl (PyExn FileNotFoundError (rel_str rel), w)
               else Inr ((), w\<lparr>fs := AList.update p (Dir True) (fs w)\<rparr>)))"

text \<open>\<open>Path.is_dir()\<close>: true when the path resolves to a directory, false on any failure.\<close>

definition is_dir :: "path \<Rightarrow> world \<Rightarrow> bool" where
  "is_dir rel w =
     (case walk (fs w) (cwd w) rel of
        Inl _ \<Rightarrow> False
      | Inr p \<Rightarrow> (case map_of (fs w) p of Some (Dir _) \<Rightarrow> True | _ \<Rightarrow> False))"

text \<open>\<open>os.chdir(rel)\<close>: the target must be a directory that the process may search.\<close>

definition os_chdir :: "path \<Rightarrow> world \<Rightarrow> unit result" where
  "os_chdir rel w =
     (case walk (fs w) (cwd w) rel of
        Inl c \<Rightarrow> Inl (PyExn c (rel_str rel), w)
      | Inr p \<Rightarrow>
          (case map_of (fs w) p of
             None \<Rightarrow> Inl (PyExn FileNotFoundError (rel_str rel), w)
           | Some (File _) \<Rightarrow> Inl (PyExn NotADirectoryError (rel_str rel), w)
           | Some (Dir ok) \<Rightarrow>
               if ok then Inr ((), w\<lparr>cwd := p\<rparr>)
               else Inl (PyExn PermissionError (rel_str rel), w)))"

text \<open>\<open>os.getcwd()\<close> fails when the working directory no longer exists.\<close>

definition os_getcwd :: "world \<Rightarrow> path result" where
  "os_getcwd w =
     (case map_of (fs w) (cwd w) of
        Some (Dir _) \<Rightarrow> Inr (cwd w, w)
      | _ \<Rightarrow> Inl (PyExn FileNotFoundError [], w))"

section \<open>pathlib\<close>

text \<open>
  \<open>Path.mkdir(parents, exist_ok)\<close>, as pathlib defines it: try \<open>os.mkdir\<close>; on
  \<open>FileNotFoundError\<close> create the parent first (when \<open>parents\<close> is set and the path has
  a parent other than itself) and retry without \<open>parents\<close>; on any other \<open>OSError\<close>
  re-raise unless \<open>exist_ok\<close> is set and the path is a directory.
\<close>

function path_mkdir :: "path \<Rightarrow> bool \<Rightarrow> bool \<Rightarrow> world \<Rightarrow> unit result" where
  "path_mkdir self parents exist_ok w =
     (case os_mkdir self w of
        Inr r \<Rightarrow> Inr r
      | Inl (e, w1) \<Rightarrow>
          if cls e = FileNotFoundError then
            (if \<not> parents \<or> butlast self = self then Inl (e, w1)
             else
               (case path_mkdir (butlast self) True True w1 of
                  Inl x \<Rightarrow> Inl x
                | Inr (_, w2) \<Rightarrow> path_mkdir self False exist_ok w2))
          else if is_OSError (cls e) then
            (if \<not> exist_ok \<or> \<not> is_dir self w1 then Inl (e, w1) else Inr ((), w1))
          else Inl (e, w1))"
  by pat_completeness auto
termination
  apply (relation "measure (\<lambda>(self, parents, exist_ok, w). 2 * length self + (if parents then 1 else 0))")
    apply simp
   apply (auto simp: less_Suc_eq_le)
  subgoal for self by (cases self rule: rev_cases) auto
  done

declare path_mkdir.simps [simp del]

text \<open>\<open>Path.absolute()\<close> of a relative path: the working directory joined with it.\<close>

definition path_absolute :: "path \<Rightarrow> world \<Rightarrow> path result" where
  "path_absolute rel w =
     (case os_getcwd w of
        Inl x \<Rightarrow> Inl x
      | Inr (d, w1) \<Rightarrow> Inr (d @ rel, w1))"

text \<open>The names of the entries of the directory at the absolute path \<open>d\<close>, in table order.\<close>

definition listdir :: "filesystem \<Rightarrow> path \<Rightarrow> string list" where
  "listdir t d = map (\<lambda>(p, n). last p) (filter (\<lambda>(p, n). p \<noteq> [] \<and> butlast p = d) t)"

definition endswith :: "string \<Rightarrow> string \<Rightarrow> bool" where
  "endswith s suffix = (length suffix \<le> length s \<and> drop (length s - length suffix) s = suffix)"

text \<open>
  \<open>Path.glob("*.png")\<close> on a relative directory: nothing when the path is not a
  directory that can be scanned, else one path per entry whose name ends in \<open>.png\<close>.
\<close>

definition path_glob_png :: "path \<Rightarrow> world \<Rightarrow> path list" where
  "path_glob_png rel w =
     (if is_dir rel w \<and> map_of (fs w) (cwd w @ rel) = Some (Dir True)
      then map (\<lambda>name. rel @ [name])
             (filter (\<lambda>name. endswith name ''.png'') (listdir (fs w) (cwd w @ rel)))
      else [])"

section \<open>The environment: the import system and the rendering library\<close>

text \<open>
  What lies outside the script is a parameter. \<open>import_from sp m names\<close> is the outcome of
  \<open>from m import names\<close> under the module search path \<open>sp\<close>: the exception raised, if
  any. \<open>render title direction\<close> is the outcome of building and rendering the scene of the
  diagram with that title: the exception raised, if any.
\<close>

record env =
  import_from :: "path list \<Rightarrow> string \<Rightarrow> string list \<Rightarrow> pyexn option"
  render :: "string \<Rightarrow> string \<Rightarrow> pyexn option"

fun run_imports :: "env \<Rightarrow> path list \<Rightarrow> (string \<times> string list) list \<Rightarrow> pyexn option" where
  "run_imports E sp [] = None"
| "run_imports E sp ((m, names) # rest) =
     (case import_from E sp m names of
        Some e \<Rightarrow> Some e
      | None \<Rightarrow> run_imports E sp rest)"

definition lower :: "char \<Rightarrow> char" where
  "lower c = (let n = (of_char c :: nat) in if 65 \<le> n \<and> n \<le> 90 then char_of (n + 32) else c)"

text \<open>
  Modelled from the spec: the rendering library is not part of this repository. The spec
  says that the image is named deterministically from the diagram title, lowercased and
  with spaces replaced; the replacement character is taken to be the underscore.
\<close>

definition slug :: "string \<Rightarrow> string" where
  "slug t = map (\<lambda>c. if c = CHR '' '' then CHR ''_'' else lower c) t"

text \<open>
  Modelled from the spec: the \<open>with Diagram(title, show=False, direction=d)\<close> block of the
  rendering library, which is not part of this repository. When the scene is built and
  rendered without an exception, one PNG file named by the slug of the title is written
  into the working directory (replacing a file of that name); its content is the image of
  the fixed scene, which the title identifies. When an exception is raised, no file is
  produced.
\<close>

definition Diagram :: "env \<Rightarrow> string \<Rightarrow> string \<Rightarrow> world \<Rightarrow> unit result" where
  "Diagram E t d w =
     (case render E t d of
        Some e \<Rightarrow> Inl (e, w)
      | None \<Rightarrow> Inr ((), w\<lparr>fs := AList.update (cwd w @ [slug t @ ''.png'']) (File t) (fs w)\<rparr>))"

section \<open>The four builders\<close>

text \<open>
  The four builders share one shape and differ in their data: the \<open>from ... import ...\<close>
  statements, the diagram title and direction, and the words of the failure message. The
  nodes, clusters and edges of each scene are fixed literals handed to the rendering
  library; they are part of what \<open>render\<close> stands for.
\<close>

record diagram_spec =
  icon_imports :: "(string \<times> string list) list"
  title :: string
  direction :: string
  what :: string

definition check_mark :: string where
  "check_mark = [CHR 0xE2, CHR 0x9C, CHR 0x85]"

definition cross_mark :: string where
  "cross_mark = [CHR 0xE2, CHR 0x9D, CHR 0x8C]"

text \<open>The body of the \<open>try\<close> block.\<close>

definition try_body :: "env \<Rightarrow> diagram_spec \<Rightarrow> world \<Rightarrow> bool result" where
  "try_body E s w =
     (case run_imports E (sys_path w) (icon_imports s) of
        Some e \<Rightarrow> Inl (e, w)
      | None \<Rightarrow>
          (case Diagram E (title s) (direction s) w of
             Inl x \<Rightarrow> Inl x
           | Inr (_, w1) \<Rightarrow> Inr (True, print (check_mark @ '' Generated: '' @ title s) w1)))"

text \<open>The \<open>try\<close> statement: \<open>except Exception as e\<close> handles instances of \<open>Exception\<close> only.\<close>

definition builder :: "env \<Rightarrow> diagram_spec \<Rightarrow> world \<Rightarrow> bool result" where
  "builder E s w =
     (case try_body E s w of
        Inr r \<Rightarrow> Inr r
      | Inl (e, w1) \<Rightarrow>
          if is_Exception (cls e)
          then Inr (False, print (cross_mark @ '' Failed to generate '' @ what s @ '': '' @ msg e) w1)
          else Inl (e, w1))"

definition current_hobby_spec :: diagram_spec where
  "current_hobby_spec = \<lparr>
     icon_imports =
       [(''diagrams'', [''Diagram'', ''Cluster'', ''Edge'']),
        (''diagrams.aws.compute'', [''ECS'', ''EC2'']),
        (''diagrams.aws.network'', [''ELB'', ''VPC'', ''InternetGateway'', ''NATGateway'']),
        (''diagrams.aws.database'', [''RDS'', ''ElastiCache'']),
        (''diagrams.aws.security'', [''IAM'', ''Cognito'']),
        (''diagrams.aws.management'', [''ParameterStore'']),
        (''diagrams.aws.general'', [''Users''])],
     title = ''Current Hobby Deployment Architecture'',
     direction = ''TB'',
     what = ''current hobby architecture'' \<rparr>"

definition consolidated_spec :: diagram_spec where
  "consolidated_spec = \<lparr>
     icon_imports =
       [(''diagrams'', [''Diagram'', ''Cluster'', ''Edge'']),
        (''diagrams.aws.compute'', [''ECS'', ''Fargate'']),
        (''diagrams.aws.network'', [''ELB'']),
        (''diagrams.aws.security'', [''IAM'', ''Cognito'', ''SecretsManager'']),
        (''diagrams.aws.storage'', [''S3'']),
        (''diagrams.aws.management'', [''Cloudwatch'']),
        (''diagrams.onprem.database'', [''PostgreSQL'']),
        (''diagrams.onprem.inmemory'', [''Redis'']),
        (''diagrams.onprem.client'', [''Users''])],
     title = ''Consolidated ECS + External Services Architecture'',
     direction = ''TB'',
     what = ''consolidated architecture'' \<rparr>"

definition future_scaling_spec :: diagram_spec where
  "future_scaling_spec = \<lparr>
     icon_imports =
       [(''diagrams'', [''Diagram'', ''Cluster'', ''Edge'']),
        (''diagrams.aws.compute'', [''ECS'', ''Fargate'']),
        (''diagrams.aws.network'', [''ELB'', ''CloudFront'']),
        (''diagrams.aws.security'', [''WAF'', ''Shield'']),
        (''diagrams.aws.management'', [''Cloudwatch'']),
        (''diagrams.aws.storage'', [''S3'']),
        (''diagrams.onprem.database'', [''PostgreSQL'']),
        (''diagrams.onprem.inmemory'', [''Redis'']),
        (''diagrams.onprem.client'', [''Users''])],
     title = ''Future Scaling Architecture'',
     direction = ''TB'',
     what = ''future scaling architecture'' \<rparr>"

definition neon_branching_spec :: diagram_spec where
  "neon_branching_spec = \<lparr>
     icon_imports =
       [(''diagrams'', [''Diagram'', ''Cluster'', ''Edge'']),
        (''diagrams.onprem.database'', [''PostgreSQL'']),
        (''diagrams.aws.compute'', [''ECS'', ''Fargate'']),
        (''diagrams.onprem.client'', [''Client'']),
        (''diagrams.generic.blank'', [''Blank''])],
     title = ''Corrected Neon Database Branching Strategy'',
     direction = ''LR'',
     what = ''corrected Neon branching'' \<rparr>"

definition generate_current_hobby_architecture :: "env \<Rightarrow> world \<Rightarrow> bool result" where
  "generate_current_hobby_architecture E = builder E current_hobby_spec"

definition generate_consolidated_architecture :: "env \<Rightarrow> world \<Rightarrow> bool result" where
  "generate_consolidated_architecture E = builder E consolidated_spec"

definition generate_future_scaling_architecture :: "env \<Rightarrow> world \<Rightarrow> bool result" where
  "generate_future_scaling_architecture E = builder E future_scaling_spec"

definition generate_corrected_neon_branching :: "env \<Rightarrow> world \<Rightarrow> bool result" where
  "generate_corrected_neon_branching E = builder E neon_branching_spec"

section \<open>The orchestrator\<close>

definition rocket :: string where
  "rocket = [CHR 0xF0, CHR 0x9F, CHR 0x9A, CHR 0x80]"

definition bar_chart :: string where
  "bar_chart = [CHR 0xF0, CHR 0x9F, CHR 0x93, CHR 0x8A]"

definition file_folder :: string where
  "file_folder = [CHR 0xF0, CHR 0x9F, CHR 0x93, CHR 0x81]"

definition open_folder :: string where
  "open_folder = [CHR 0xF0, CHR 0x9F, CHR 0x93, CHR 0x82]"

definition page :: string where
  "page = [CHR 0xF0, CHR 0x9F, CHR 0x93, CHR 0x84]"

definition newline :: char where
  "newline = CHR 0x0A"

text \<open>Decimal rendering of a count, as an f-string does it.\<close>

fun str_nat :: "nat \<Rightarrow> string" where
  "str_nat n = (if n < 10 then [char_of (48 + n)] else str_nat (n div 10) @ [char_of (48 + n mod 10)])"

declare str_nat.simps [simp del]

definition diagrams_dir :: path where
  "diagrams_dir = [''docs'', ''diagrams'']"

text \<open>
  The start of \<open>main\<close>: the greeting, creation of the output directory and the change
  into it. \<open>diagrams_dir\<close> is a relative path.
\<close>

definition main_prepare :: "world \<Rightarrow> unit result" where
  "main_prepare w0 =
     (let w1 = print (rocket @ '' Starting diagram generation...'') w0 in
      case path_mkdir diagrams_dir True True w1 of
        Inl x \<Rightarrow> Inl x
      | Inr (_, w2) \<Rightarrow> os_chdir diagrams_dir w2)"

text \<open>The four calls, each appending a pair to \<open>results\<close>.\<close>

definition main_generate :: "env \<Rightarrow> world \<Rightarrow> (string \<times> bool) list result" where
  "main_generate E w0 =
     (case generate_current_hobby_architecture E w0 of
        Inl x \<Rightarrow> Inl x
      | Inr (r1, w1) \<Rightarrow>
     (case generate_consolidated_architecture E w1 of
        Inl x \<Rightarrow> Inl x
      | Inr (r2, w2) \<Rightarrow>
     (case generate_future_scaling_architecture E w2 of
        Inl x \<Rightarrow> Inl x
      | Inr (r3, w3) \<Rightarrow>
     (case generate_corrected_neon_branching E w3 of
        Inl x \<Rightarrow> Inl x
      | Inr (r4, w4) \<Rightarrow>
          Inr ([(''Current Hobby Architecture'', r1),
                (''Consolidated Architecture'', r2),
                (''Future Scaling Architecture'', r3),
                (''Corrected Neon Branching'', r4)], w4)))))"

text \<open>The loop over \<open>results\<close>: one status line per pair, counting the successes.\<close>

fun summary_loop :: "(string \<times> bool) list \<Rightarrow> nat \<Rightarrow> world \<Rightarrow> nat \<times> world" where
  "summary_loop [] successful w = (successful, w)"
| "summary_loop ((name, success) # rest) successful w =
     (let status = (if success then check_mark @ '' SUCCESS'' else cross_mark @ '' FAILED'');
          w1 = print (''  '' @ name @ '': '' @ status) w
      in summary_loop rest (if success then successful + 1 else successful) w1)"

text \<open>The loop over \<open>png_files\<close>.\<close>

fun list_files :: "path list \<Rightarrow> world \<Rightarrow> world" where
  "list_files [] w = w"
| "list_files (file # rest) w = list_files rest (print (''  - '' @ last file) w)"

text \<open>The rest of \<open>main\<close>, from the results header to the returned flag.\<close>

definition main_report :: "(string \<times> bool) list \<Rightarrow> world \<Rightarrow> bool result" where
  "main_report results w0 =
     (let w1 = print (newline # bar_chart @ '' Generation Results:'') w0;
          (successful, w2) = summary_loop results 0 w1;
          w3 = print (newline # file_folder @ '' Generated '' @ str_nat successful @ ''/''
                        @ str_nat (length results) @ '' diagrams successfully'') w2
      in case path_absolute diagrams_dir w3 of
           Inl x \<Rightarrow> Inl x
         | Inr (a, w4) \<Rightarrow>
             (let w5 = print (open_folder @ '' Diagrams saved to: '' @ path_str a) w4;
                  png_files = path_glob_png diagrams_dir w5;
                  w6 = (if png_files \<noteq> []
                        then list_files png_files (print (newline # page @ '' Generated files:'') w5)
                        else w5)
              in Inr (successful = length results, w6)))"

definition main :: "env \<Rightarrow> world \<Rightarrow> bool result" where
  "main E w0 =
     (case main_prepare w0 of
        Inl x \<Rightarrow> Inl x
      | Inr (_, w1) \<Rightarrow>
     (case main_generate E w1 of
        Inl x \<Rightarrow> Inl x
      | Inr (results, w2) \<Rightarrow> main_report results w2))"

text \<open>The \<open>__main__\<close> block: \<open>sys.exit\<close> fixes the exit code from the flag.\<close>

definition main_block :: "env \<Rightarrow> world \<Rightarrow> int result" where
  "main_block E w0 =
     (case main E w0 of
        Inl x \<Rightarrow> Inl x
      | Inr (success, w1) \<Rightarrow> Inr (if success then 0 else 1, w1))"

text \<open>
  The script as a whole: the module-level \<open>sys.path.insert(0, os.getcwd())\<close>, then the
  \<open>__main__\<close> block.
\<close>

definition script :: "env \<Rightarrow> world \<Rightarrow> int result" where
  "script E w0 =
     (case os_getcwd w0 of
        Inl x \<Rightarrow> Inl x
      | Inr (d, w1) \<Rightarrow> main_block E (w1\<lparr>sys_path := d # sys_path w1\<rparr>))"

text \<open>A fresh process started in directory \<open>d\<close> on file system \<open>t\<close>.\<close>

definition start :: "path \<Rightarrow> path list \<Rightarrow> filesystem \<Rightarrow> world" where
  "start d sp t = \<lparr>fs = t, cwd = d, sys_path = sp, out = []\<rparr>"

section \<open>Example environments and file systems\<close>

text \<open>Everything installed and working.\<close>

definition ok_env :: env where
  "ok_env = \<lparr>import_from = (\<lambda>sp m names. None), render = (\<lambda>t d. None)\<rparr>"

text \<open>The rendering library is not installed.\<close>

definition missing_library_env :: env where
  "missing_library_env =
     \<lparr>import_from = (\<lambda>sp m names. Some (PyExn ModuleNotFoundError ''No module named diagrams'')),
      render = (\<lambda>t d. None)\<rparr>"

text \<open>The library is installed, the layout program it calls is not.\<close>

definition no_graphviz_env :: env where
  "no_graphviz_env =
     \<lparr>import_from = (\<lambda>sp m names. None),
      render = (\<lambda>t d. Some (PyExn (OtherException ''ExecutableNotFound'') ''failed to execute dot''))\<rparr>"

text \<open>The user interrupts the process while a scene is rendered.\<close>

definition interrupted_env :: env where
  "interrupted_env =
     \<lparr>import_from = (\<lambda>sp m names. None),
      render = (\<lambda>t d. Some (PyExn KeyboardInterrupt []))\<rparr>"

text \<open>Only the third diagram fails to render.\<close>

definition third_fails_env :: env where
  "third_fails_env =
     \<lparr>import_from = (\<lambda>sp m names. None),
      render = (\<lambda>t d. if t = ''Future Scaling Architecture''
                       then Some (PyExn (OtherException ''CalledProcessError'') ''dot exited with 1'')
                       else None)\<rparr>"

text \<open>A checkout at \<open>/repo\<close> without a \<open>docs\<close> directory.\<close>

definition repo_fs :: filesystem where
  "repo_fs = [([''repo''], Dir True)]"

text \<open>A checkout whose output directory exists but may not be entered.\<close>

definition locked_fs :: filesystem where
  "locked_fs =
     [([''repo''], Dir True),
      ([''repo'', ''docs''], Dir True),
      ([''repo'', ''docs'', ''diagrams''], Dir False)]"

text \<open>A checkout in which \<open>docs\<close> is a regular file.\<close>

definition blocked_fs :: filesystem where
  "blocked_fs = [([''repo''], Dir True), ([''repo'', ''docs''], File [])]"

text \<open>A checkout whose output directory exists and is empty.\<close>

definition ready_fs :: filesystem where
  "ready_fs =
     [([''repo''], Dir True),
      ([''repo'', ''docs''], Dir True),
      ([''repo'', ''docs'', ''diagrams''], Dir True)]"

section \<open>Basic facts\<close>

subsection \<open>Builders\<close>

lemma print_simps [simp]:
  "fs (print s w) = fs w" "cwd (print s w) = cwd w" "sys_path (print s w) = sys_path w"
  "out (print s w) = out w @ [s]"
  by (simp_all add: print_def)

lemma builder_returns:
  assumes "builder E s w = Inr (r, w')"
  shows "cwd w' = cwd w" and "sys_path w' = sys_path w"
    and "\<exists>l. out w' = out w @ [l]"
    and "r \<Longrightarrow> fs w' = AList.update (cwd w @ [slug (title s) @ ''.png'']) (File (title s)) (fs w)"
    and "\<not> r \<Longrightarrow> fs w' = fs w"
  using assms
  by (auto simp: builder_def try_body_def Diagram_def split: option.splits sum.splits if_splits prod.splits)

lemma builder_raises:
  assumes "builder E s w = Inl (e, w')"
  shows "\<not> is_Exception (cls e)" and "w' = w"
  using assms
  by (auto simp: builder_def try_body_def Diagram_def split: option.splits sum.splits if_splits prod.splits)

lemma builder_map_of:
  assumes "builder E s w = Inr (r, w')" and "p \<noteq> cwd w @ [slug (title s) @ ''.png'']"
  shows "map_of (fs w') p = map_of (fs w) p"
  using assms
  by (auto simp: builder_def try_body_def Diagram_def update_conv' split: option.splits sum.splits if_splits prod.splits)


subsection \<open>The summary\<close>

lemma summary_loop_count:
  "fst (summary_loop rs n w) = n + length (filter snd rs)"
  by (induction rs n w rule: summary_loop.induct) (simp_all add: Let_def)

lemma summary_loop_frame:
  "fs (snd (summary_loop rs n w)) = fs w \<and> cwd (snd (summary_loop rs n w)) = cwd w
     \<and> sys_path (snd (summary_loop rs n w)) = sys_path w"
  by (induction rs n w rule: summary_loop.induct) (simp_all add: Let_def)

lemma summary_loop_out:
  "out (snd (summary_loop rs n w)) =
     out w @ map (\<lambda>(name, success). ''  '' @ name @ '': '' @
                    (if success then check_mark @ '' SUCCESS'' else cross_mark @ '' FAILED'')) rs"
  by (induction rs n w rule: summary_loop.induct) (simp_all add: Let_def)

lemma list_files_frame:
  "fs (list_files ps w) = fs w \<and> cwd (list_files ps w) = cwd w
     \<and> sys_path (list_files ps w) = sys_path w"
  by (induction ps w rule: list_files.induct) simp_all

lemma list_files_out:
  "out (list_files ps w) = out w @ map (\<lambda>file. ''  - '' @ last file) ps"
  by (induction ps w rule: list_files.induct) simp_all

lemma main_report_raises:
  assumes "main_report results w = Inl (e, w')"
  shows "\<not> (\<exists>ok. map_of (fs w) (cwd w) = Some (Dir ok))"
  using assms summary_loop_frame [of results 0 "print (newline # bar_chart @ '' Generation Results:'') w"]
  by (auto simp: main_report_def path_absolute_def os_getcwd_def Let_def
      split: prod.splits sum.splits option.splits node.splits)

lemma main_report_returns:
  assumes "map_of (fs w) (cwd w) = Some (Dir ok)"
  shows "\<exists>w'. main_report results w = Inr (length (filter snd results) = length results, w')
      \<and> fs w' = fs w \<and> cwd w' = cwd w \<and> sys_path w' = sys_path w
      \<and> (\<exists>rest. out w' = out w @ [newline # bar_chart @ '' Generation Results:'']
            @ map (\<lambda>(name, success). ''  '' @ name @ '': '' @
                    (if success then check_mark @ '' SUCCESS'' else cross_mark @ '' FAILED'')) results
            @ [newline # file_folder @ '' Generated '' @ str_nat (length (filter snd results)) @ ''/''
                 @ str_nat (length results) @ '' diagrams successfully'',
               open_folder @ '' Diagrams saved to: '' @ path_str (cwd w @ diagrams_dir)]
            @ rest)"
proof -
  let ?w1 = "print (newline # bar_chart @ '' Generation Results:'') w"
  obtain n w2 where loop: "summary_loop results 0 ?w1 = (n, w2)"
    by (cases "summary_loop results 0 ?w1")
  have n: "n = length (filter snd results)"
    using summary_loop_count [of results 0 ?w1] loop by simp
  have frame: "fs w2 = fs w" "cwd w2 = cwd w" "sys_path w2 = sys_path w"
    using summary_loop_frame [of results 0 ?w1] loop by simp_all
  have out2: "out w2 = out w @ [newline # bar_chart @ '' Generation Results:'']
      @ map (\<lambda>(name, success). ''  '' @ name @ '': '' @
                    (if success then check_mark @ '' SUCCESS'' else cross_mark @ '' FAILED'')) results"
    using summary_loop_out [of results 0 ?w1] loop by simp
  show ?thesis
    using assms n frame out2 loop
    by (simp add: main_report_def path_absolute_def os_getcwd_def Let_def
        list_files_frame list_files_out)
qed


subsection \<open>Directory creation\<close>

lemma walk_Inr: "walk t d cs = Inr p \<Longrightarrow> p = d @ cs"
  by (induction t d cs rule: walk.induct) (auto split: option.splits node.splits if_splits)

lemma os_mkdir_returns:
  assumes "os_mkdir rel w = Inr (u, w')"
  shows "w' = w\<lparr>fs := AList.update (cwd w @ rel) (Dir True) (fs w)\<rparr>"
    and "map_of (fs w) (cwd w @ rel) = None" and "rel \<noteq> []"
  using assms walk_Inr [of "fs w" "cwd w" rel]
  by (auto simp: os_mkdir_def split: sum.splits option.splits if_splits)

lemma walk_Inl: "walk t d cs = Inl c \<Longrightarrow> is_OSError c"
  by (induction t d cs rule: walk.induct) (auto split: option.splits node.splits if_splits)

lemma os_mkdir_raises:
  assumes "os_mkdir rel w = Inl (e, w')"
  shows "w' = w" and "is_OSError (cls e)"
  using assms walk_Inl [of "fs w" "cwd w" rel]
  by (auto simp: os_mkdir_def split: sum.splits option.splits if_splits)

lemma path_mkdir_frame:
  "(path_mkdir p a b w = Inr (u, w') \<longrightarrow>
      cwd w' = cwd w \<and> sys_path w' = sys_path w \<and> out w' = out w)
   \<and> (path_mkdir p a b w = Inl (e, w') \<longrightarrow>
      cwd w' = cwd w \<and> sys_path w' = sys_path w \<and> out w' = out w \<and> is_OSError (cls e))"
proof (induction p a b w arbitrary: u w' e rule: path_mkdir.induct)
  case (1 self parents exist_ok w)
  show ?case
  proof (cases "os_mkdir self w")
    case (Inr r)
    then show ?thesis
      using os_mkdir_returns(1) [of self w "fst r" "snd r"]
      by (subst (1 2) path_mkdir.simps) auto
  next
    case (Inl x)
    obtain e0 w1 where x: "x = (e0, w1)" by (cases x)
    have w1: "w1 = w" and os: "is_OSError (cls e0)"
      using os_mkdir_raises [of self w e0 w1] Inl x by simp_all
    show ?thesis
    proof (cases "cls e0 = FileNotFoundError \<and> \<not> (\<not> parents \<or> butlast self = self)")
      case False
      then show ?thesis
        using Inl x w1 os
        by (subst (1 2) path_mkdir.simps) (auto split: if_splits)
    next
      case True
      then have c1: "cls e0 = FileNotFoundError" and c2: "\<not> (\<not> parents \<or> butlast self = self)"
        by simp_all
      note IH1 = "1.IH"(1) [OF Inl x [symmetric] c1 c2]
      show ?thesis
      proof (cases "path_mkdir (butlast self) True True w1")
        case inner: (Inl y)
        obtain e2 w2 where y: "y = (e2, w2)" by (cases y)
        have "cwd w2 = cwd w1 \<and> sys_path w2 = sys_path w1 \<and> out w2 = out w1 \<and> is_OSError (cls e2)"
          using IH1 [of _ w2 e2] inner y by simp
        then show ?thesis
          using Inl x w1 c1 c2 inner y
          by (subst (1 2) path_mkdir.simps) auto
      next
        case inner: (Inr y)
        obtain u2 w2 where y: "y = (u2, w2)" by (cases y)
        have f2: "cwd w2 = cwd w1 \<and> sys_path w2 = sys_path w1 \<and> out w2 = out w1"
          using IH1 [of u2 w2] inner y by simp
        note IH2 = "1.IH"(2) [OF Inl x [symmetric] c1 c2 inner y [symmetric], of u w' e]
        show ?thesis
          using Inl x w1 c1 c2 inner y f2 IH2
          by (subst (1 2) path_mkdir.simps) auto
      qed
    qed
  qed
qed


subsection \<open>The shape of a run\<close>

lemma main_report_Inr:
  assumes "main_report results w = Inr (b, w')"
  shows "b = (length (filter snd results) = length results)"
    and "fs w' = fs w" and "cwd w' = cwd w" and "sys_path w' = sys_path w"
    and "\<exists>ok. map_of (fs w) (cwd w) = Some (Dir ok)"
proof -
  let ?w1 = "print (newline # bar_chart @ '' Generation Results:'') w"
  show ok: "\<exists>ok. map_of (fs w) (cwd w) = Some (Dir ok)"
  proof (rule ccontr)
    assume n: "\<not> (\<exists>ok. map_of (fs w) (cwd w) = Some (Dir ok))"
    obtain k w2 where loop: "summary_loop results 0 ?w1 = (k, w2)"
      by (cases "summary_loop results 0 ?w1")
    have "fs w2 = fs w" "cwd w2 = cwd w"
      using summary_loop_frame [of results 0 ?w1] loop by simp_all
    then have "isl (main_report results w)"
      using n loop
      by (auto simp: main_report_def path_absolute_def os_getcwd_def Let_def
          split: option.splits node.splits)
    with assms show False by simp
  qed
  then obtain ok where "map_of (fs w) (cwd w) = Some (Dir ok)" ..
  from main_report_returns [OF this, of results] assms
  show "b = (length (filter snd results) = length results)"
    and "fs w' = fs w" and "cwd w' = cwd w" and "sys_path w' = sys_path w"
    by auto
qed

lemma main_generate_Inr:
  assumes "main_generate E w = Inr (results, w')"
  shows "\<exists>r1 w1 r2 w2 r3 w3 r4.
      generate_current_hobby_architecture E w = Inr (r1, w1)
    \<and> generate_consolidated_architecture E w1 = Inr (r2, w2)
    \<and> generate_future_scaling_architecture E w2 = Inr (r3, w3)
    \<and> generate_corrected_neon_branching E w3 = Inr (r4, w')
    \<and> results = [(''Current Hobby Architecture'', r1), (''Consolidated Architecture'', r2),
                 (''Future Scaling Architecture'', r3), (''Corrected Neon Branching'', r4)]"
  using assms by (auto simp: main_generate_def split: sum.splits prod.splits)

lemma main_Inr:
  assumes "main E w = Inr (b, w')"
  shows "\<exists>w0 results w4. main_prepare w = Inr ((), w0)
     \<and> main_generate E w0 = Inr (results, w4) \<and> main_report results w4 = Inr (b, w')"
  using assms by (auto simp: main_def split: sum.splits prod.splits)

subsection \<open>Preparing the output directory\<close>

lemma os_mkdir_docs_diagrams:
  assumes "map_of (fs w) (cwd w) = Some (Dir True)"
    and "map_of (fs w) (cwd w @ [''docs'']) = Some (Dir True)"
    and "map_of (fs w) (cwd w @ diagrams_dir) = None"
  shows "os_mkdir diagrams_dir w
     = Inr ((), w\<lparr>fs := AList.update (cwd w @ diagrams_dir) (Dir True) (fs w)\<rparr>)"
  using assms by (simp add: os_mkdir_def diagrams_dir_def)

lemma path_mkdir_docs_exists:
  assumes "map_of (fs w) (cwd w) = Some (Dir True)"
    and "map_of (fs w) (cwd w @ [''docs'']) = Some (Dir True)"
    and "map_of (fs w) (cwd w @ diagrams_dir) = None"
  shows "path_mkdir diagrams_dir parents exist_ok w
     = Inr ((), w\<lparr>fs := AList.update (cwd w @ diagrams_dir) (Dir True) (fs w)\<rparr>)"
  by (subst path_mkdir.simps) (simp add: os_mkdir_docs_diagrams [OF assms])

lemma path_mkdir_fresh:
  assumes "map_of (fs w) (cwd w) = Some (Dir True)"
    and "map_of (fs w) (cwd w @ [''docs'']) = None"
    and "map_of (fs w) (cwd w @ diagrams_dir) = None"
  shows "path_mkdir diagrams_dir True True w
     = Inr ((), w\<lparr>fs := AList.update (cwd w @ diagrams_dir) (Dir True)
                            (AList.update (cwd w @ [''docs'']) (Dir True) (fs w))\<rparr>)"
proof -
  let ?w2 = "w\<lparr>fs := AList.update (cwd w @ [''docs'']) (Dir True) (fs w)\<rparr>"
  have first: "os_mkdir diagrams_dir w = Inl (PyExn FileNotFoundError (rel_str diagrams_dir), w)"
    using assms by (simp add: os_mkdir_def diagrams_dir_def)
  have "os_mkdir [''docs''] w = Inr ((), ?w2)"
    using assms by (simp add: os_mkdir_def)
  then have parent: "path_mkdir [''docs''] True True w = Inr ((), ?w2)"
    by (subst path_mkdir.simps) simp
  have again: "path_mkdir diagrams_dir False True ?w2
     = Inr ((), ?w2\<lparr>fs := AList.update (cwd ?w2 @ diagrams_dir) (Dir True) (fs ?w2)\<rparr>)"
    using assms by (intro path_mkdir_docs_exists) (simp_all add: update_conv' diagrams_dir_def)
  have bl: "butlast diagrams_dir = [''docs'']" "[''docs''] \<noteq> diagrams_dir"
    by (simp_all add: diagrams_dir_def)
  show ?thesis
    by (subst path_mkdir.simps) (simp add: first bl parent again)
qed

lemma path_mkdir_exists:
  assumes "map_of (fs w) (cwd w) = Some (Dir True)"
    and "map_of (fs w) (cwd w @ [''docs'']) = Some (Dir True)"
    and "map_of (fs w) (cwd w @ diagrams_dir) = Some (Dir ok)"
  shows "path_mkdir diagrams_dir True True w = Inr ((), w)"
proof -
  have first: "os_mkdir diagrams_dir w = Inl (PyExn FileExistsError (rel_str diagrams_dir), w)"
    using assms by (simp add: os_mkdir_def diagrams_dir_def)
  have "is_dir diagrams_dir w"
    using assms by (simp add: is_dir_def diagrams_dir_def)
  then show ?thesis
    by (subst path_mkdir.simps) (simp add: first)
qed

lemma os_chdir_ok:
  assumes "map_of (fs w) (cwd w) = Some (Dir True)"
    and "map_of (fs w) (cwd w @ [''docs'']) = Some (Dir True)"
    and "map_of (fs w) (cwd w @ diagrams_dir) = Some (Dir True)"
  shows "os_chdir diagrams_dir w = Inr ((), w\<lparr>cwd := cwd w @ diagrams_dir\<rparr>)"
  using assms by (simp add: os_chdir_def diagrams_dir_def)

lemma os_chdir_Inr:
  assumes "os_chdir diagrams_dir w = Inr (u, w')"
  shows "w' = w\<lparr>cwd := cwd w @ diagrams_dir\<rparr>"
    and "map_of (fs w) (cwd w) = Some (Dir True)"
    and "map_of (fs w) (cwd w @ [''docs'']) = Some (Dir True)"
    and "map_of (fs w) (cwd w @ diagrams_dir) = Some (Dir True)"
  using assms
  by (auto simp: os_chdir_def diagrams_dir_def split: option.splits node.splits if_splits sum.splits)

lemma main_prepare_fresh:
  assumes "map_of (fs w) (cwd w) = Some (Dir True)"
    and "map_of (fs w) (cwd w @ [''docs'']) = None"
    and "map_of (fs w) (cwd w @ diagrams_dir) = None"
  shows "main_prepare w = Inr ((),
     w\<lparr>fs := AList.update (cwd w @ diagrams_dir) (Dir True)
                (AList.update (cwd w @ [''docs'']) (Dir True) (fs w)),
       cwd := cwd w @ diagrams_dir,
       out := out w @ [rocket @ '' Starting diagram generation...'']\<rparr>)"
proof -
  let ?w1 = "print (rocket @ '' Starting diagram generation...'') w"
  have a: "map_of (fs ?w1) (cwd ?w1) = Some (Dir True)"
    "map_of (fs ?w1) (cwd ?w1 @ [''docs'']) = None"
    "map_of (fs ?w1) (cwd ?w1 @ diagrams_dir) = None"
    using assms by simp_all
  let ?w2 = "?w1\<lparr>fs := AList.update (cwd ?w1 @ diagrams_dir) (Dir True)
                            (AList.update (cwd ?w1 @ [''docs'']) (Dir True) (fs ?w1))\<rparr>"
  have "os_chdir diagrams_dir ?w2 = Inr ((), ?w2\<lparr>cwd := cwd ?w2 @ diagrams_dir\<rparr>)"
    using assms by (intro os_chdir_ok) (simp_all add: update_conv' diagrams_dir_def)
  then have "main_prepare w = Inr ((), ?w2\<lparr>cwd := cwd ?w2 @ diagrams_dir\<rparr>)"
    by (simp add: main_prepare_def Let_def path_mkdir_fresh [OF a])
  then show ?thesis
    by (simp add: print_def)
qed

lemma main_prepare_docs_exists:
  assumes "map_of (fs w) (cwd w) = Some (Dir True)"
    and "map_of (fs w) (cwd w @ [''docs'']) = Some (Dir True)"
    and "map_of (fs w) (cwd w @ diagrams_dir) = None"
  shows "main_prepare w = Inr ((),
     w\<lparr>fs := AList.update (cwd w @ diagrams_dir) (Dir True) (fs w),
       cwd := cwd w @ diagrams_dir,
       out := out w @ [rocket @ '' Starting diagram generation...'']\<rparr>)"
proof -
  let ?w1 = "print (rocket @ '' Starting diagram generation...'') w"
  have a: "map_of (fs ?w1) (cwd ?w1) = Some (Dir True)"
    "map_of (fs ?w1) (cwd ?w1 @ [''docs'']) = Some (Dir True)"
    "map_of (fs ?w1) (cwd ?w1 @ diagrams_dir) = None"
    using assms by simp_all
  let ?w2 = "?w1\<lparr>fs := AList.update (cwd ?w1 @ diagrams_dir) (Dir True) (fs ?w1)\<rparr>"
  have "os_chdir diagrams_dir ?w2 = Inr ((), ?w2\<lparr>cwd := cwd ?w2 @ diagrams_dir\<rparr>)"
    using assms by (intro os_chdir_ok) (simp_all add: update_conv' diagrams_dir_def)
  then have "main_prepare w = Inr ((), ?w2\<lparr>cwd := cwd ?w2 @ diagrams_dir\<rparr>)"
    by (simp add: main_prepare_def Let_def path_mkdir_docs_exists [OF a])
  then show ?thesis
    by (simp add: print_def)
qed

lemma main_prepare_exists:
  assumes "map_of (fs w) (cwd w) = Some (Dir True)"
    and "map_of (fs w) (cwd w @ [''docs'']) = Some (Dir True)"
    and "map_of (fs w) (cwd w @ diagrams_dir) = Some (Dir True)"
  shows "main_prepare w = Inr ((),
     w\<lparr>cwd := cwd w @ diagrams_dir,
       out := out w @ [rocket @ '' Starting diagram generation...'']\<rparr>)"
proof -
  let ?w1 = "print (rocket @ '' Starting diagram generation...'') w"
  have a: "map_of (fs ?w1) (cwd ?w1) = Some (Dir True)"
    "map_of (fs ?w1) (cwd ?w1 @ [''docs'']) = Some (Dir True)"
    "map_of (fs ?w1) (cwd ?w1 @ diagrams_dir) = Some (Dir True)"
    using assms by simp_all
  have "main_prepare w = Inr ((), ?w1\<lparr>cwd := cwd ?w1 @ diagrams_dir\<rparr>)"
    by (simp add: main_prepare_def Let_def path_mkdir_exists [OF a] os_chdir_ok [OF a])
  then show ?thesis
    by (simp add: print_def)
qed

lemma main_prepare_Inr:
  assumes "main_prepare w = Inr (u, w')"
  shows "cwd w' = cwd w @ diagrams_dir" and "sys_path w' = sys_path w"
    and "out w' = out w @ [rocket @ '' Starting diagram generation...'']"
    and "map_of (fs w') (cwd w) = Some (Dir True)"
    and "map_of (fs w') (cwd w @ [''docs'']) = Some (Dir True)"
    and "map_of (fs w') (cwd w @ diagrams_dir) = Some (Dir True)"
proof -
  let ?w1 = "print (rocket @ '' Starting diagram generation...'') w"
  from assms obtain u2 w2 where m: "path_mkdir diagrams_dir True True ?w1 = Inr (u2, w2)"
    and c: "os_chdir diagrams_dir w2 = Inr (u, w')"
    by (auto simp: main_prepare_def Let_def split: sum.splits prod.splits)
  have f: "cwd w2 = cwd w" "sys_path w2 = sys_path w"
    "out w2 = out w @ [rocket @ '' Starting diagram generation...'']"
    using path_mkdir_frame [of diagrams_dir True True ?w1 u2 w2] m by simp_all
  note r = os_chdir_Inr [OF c]
  show "cwd w' = cwd w @ diagrams_dir" and "sys_path w' = sys_path w"
    and "out w' = out w @ [rocket @ '' Starting diagram generation...'']"
    and "map_of (fs w') (cwd w) = Some (Dir True)"
    and "map_of (fs w') (cwd w @ [''docs'']) = Some (Dir True)"
    and "map_of (fs w') (cwd w @ diagrams_dir) = Some (Dir True)"
    using r f by simp_all
qed


subsection \<open>What a builder does, case by case\<close>

lemma builder_ok:
  assumes "run_imports E (sys_path w) (icon_imports s) = None"
    and "render E (title s) (direction s) = None"
  shows "builder E s w = Inr (True,
     w\<lparr>fs := AList.update (cwd w @ [slug (title s) @ ''.png'']) (File (title s)) (fs w),
       out := out w @ [check_mark @ '' Generated: '' @ title s]\<rparr>)"
  using assms by (simp add: builder_def try_body_def Diagram_def print_def)

lemma builder_handles:
  assumes "run_imports E (sys_path w) (icon_imports s) = Some e
         \<or> run_imports E (sys_path w) (icon_imports s) = None
           \<and> render E (title s) (direction s) = Some e"
  shows "builder E s w =
     (if is_Exception (cls e)
      then Inr (False, w\<lparr>out := out w @ [cross_mark @ '' Failed to generate '' @ what s @ '': '' @ msg e]\<rparr>)
      else Inl (e, w))"
  using assms by (auto simp: builder_def try_body_def Diagram_def print_def)

lemma run_imports_ok_env [simp]: "run_imports ok_env sp imps = None"
  by (induction imps) (auto simp: ok_env_def)

lemma main_generate_frame:
  assumes "main_generate E w = Inr (results, w')"
  shows "cwd w' = cwd w" and "sys_path w' = sys_path w"
    and "map_of (fs w') (cwd w) = map_of (fs w) (cwd w)"
proof -
  from main_generate_Inr [OF assms] obtain r1 w1 r2 w2 r3 w3 r4 where
    c: "builder E current_hobby_spec w = Inr (r1, w1)"
       "builder E consolidated_spec w1 = Inr (r2, w2)"
       "builder E future_scaling_spec w2 = Inr (r3, w3)"
       "builder E neon_branching_spec w3 = Inr (r4, w')"
    unfolding generate_current_hobby_architecture_def generate_consolidated_architecture_def
      generate_future_scaling_architecture_def generate_corrected_neon_branching_def
    by blast
  have cw: "cwd w1 = cwd w" "cwd w2 = cwd w" "cwd w3 = cwd w" "cwd w' = cwd w"
    using c builder_returns(1) by metis+
  then show "cwd w' = cwd w" by simp
  show "sys_path w' = sys_path w"
    using c builder_returns(2) by metis
  have "map_of (fs w1) (cwd w) = map_of (fs w) (cwd w)"
    using builder_map_of [OF c(1), of "cwd w"] by simp
  moreover have "map_of (fs w2) (cwd w) = map_of (fs w1) (cwd w)"
    using builder_map_of [OF c(2), of "cwd w"] cw by simp
  moreover have "map_of (fs w3) (cwd w) = map_of (fs w2) (cwd w)"
    using builder_map_of [OF c(3), of "cwd w"] cw by simp
  moreover have "map_of (fs w') (cwd w) = map_of (fs w3) (cwd w)"
    using builder_map_of [OF c(4), of "cwd w"] cw by simp
  ultimately show "map_of (fs w') (cwd w) = map_of (fs w) (cwd w)" by simp
qed

lemma main_generate_Inl:
  assumes "main_generate E w = Inl (e, w')"
  shows "\<not> is_Exception (cls e)"
  using assms builder_raises(1)
  unfolding main_generate_def generate_current_hobby_architecture_def
    generate_consolidated_architecture_def generate_future_scaling_architecture_def
    generate_corrected_neon_branching_def
  by (fastforce split: sum.splits prod.splits)

lemma main_after_prepare:
  assumes p: "main_prepare w = Inr (u, w0)"
  shows "(\<forall>e w'. main E w = Inl (e, w') \<longrightarrow> main_generate E w0 = Inl (e, w') \<and> \<not> is_Exception (cls e))
       \<and> (\<forall>results w4. main_generate E w0 = Inr (results, w4)
             \<longrightarrow> (\<exists>w'. main E w = Inr (length (filter snd results) = length results, w')))"
proof -
  have dir0: "map_of (fs w0) (cwd w0) = Some (Dir True)"
    using main_prepare_Inr [OF p] by simp
  have total: "\<exists>w'. main_report results w4 = Inr (length (filter snd results) = length results, w')"
    if g: "main_generate E w0 = Inr (results, w4)" for results w4
  proof -
    have "map_of (fs w4) (cwd w4) = Some (Dir True)"
      using main_generate_frame [OF g] dir0 by simp
    from main_report_returns [OF this, of results] show ?thesis by blast
  qed
  show ?thesis
  proof (cases "main_generate E w0")
    case (Inl x)
    then show ?thesis
      using p main_generate_Inl [of E w0 "fst x" "snd x"]
      by (auto simp: main_def)
  next
    case (Inr y)
    obtain results w4 where y: "y = (results, w4)" by (cases y)
    from total [of results w4] Inr y p show ?thesis
      by (auto simp: main_def)
  qed
qed


subsection \<open>A run with everything installed\<close>

lemma main_generate_ok_env:
  "main_generate ok_env w = Inr (
     [(''Current Hobby Architecture'', True), (''Consolidated Architecture'', True),
      (''Future Scaling Architecture'', True), (''Corrected Neon Branching'', True)],
     w\<lparr>fs := AList.update (cwd w @ [slug (title neon_branching_spec) @ ''.png''])
                  (File (title neon_branching_spec))
               (AList.update (cwd w @ [slug (title future_scaling_spec) @ ''.png''])
                  (File (title future_scaling_spec))
               (AList.update (cwd w @ [slug (title consolidated_spec) @ ''.png''])
                  (File (title consolidated_spec))
               (AList.update (cwd w @ [slug (title current_hobby_spec) @ ''.png''])
                  (File (title current_hobby_spec)) (fs w)))),
       out := out w @ [check_mark @ '' Generated: '' @ title current_hobby_spec,
                       check_mark @ '' Generated: '' @ title consolidated_spec,
                       check_mark @ '' Generated: '' @ title future_scaling_spec,
                       check_mark @ '' Generated: '' @ title neon_branching_spec]\<rparr>)"
proof -
  have r: "render ok_env t d = None" for t d by (simp add: ok_env_def)
  show ?thesis
    unfolding main_generate_def generate_current_hobby_architecture_def
      generate_consolidated_architecture_def generate_future_scaling_architecture_def
      generate_corrected_neon_branching_def
    by (simp add: builder_ok r)
qed

lemma fresh_checkout_prepare:
  "\<exists>w0. main_prepare (start [''repo''] [] repo_fs) = Inr ((), w0)"
  using main_prepare_fresh [of "start [''repo''] [] repo_fs"]
  by (simp add: start_def repo_fs_def diagrams_dir_def)

lemma fresh_checkout_main:
  "\<exists>w'. main ok_env (start [''repo''] [] repo_fs) = Inr (True, w')"
proof -
  from fresh_checkout_prepare obtain w0 where
    p: "main_prepare (start [''repo''] [] repo_fs) = Inr ((), w0)" ..
  from main_after_prepare [OF p, of ok_env] main_generate_ok_env [of w0]
  show ?thesis by fastforce
qed

lemma str_nat_digit: "n < 10 \<Longrightarrow> str_nat n = [char_of (48 + n)]"
  by (subst str_nat.simps) simp

lemma str_nat_4: "str_nat 4 = ''4''"
  by code_simp

lemma str_nat_upto_4:
  "n \<le> 4 \<Longrightarrow> str_nat n \<in> {''0'', ''1'', ''2'', ''3'', ''4''}"
proof -
  assume "n \<le> 4"
  then have "n = 0 \<or> n = 1 \<or> n = 2 \<or> n = 3 \<or> n = 4" by arith
  moreover have "str_nat 0 = ''0''" "str_nat 1 = ''1''" "str_nat 2 = ''2''"
    "str_nat 3 = ''3''" "str_nat 4 = ''4''"
    by code_simp+
  ultimately show ?thesis by auto
qed

section \<open>The returned flag and the exit code\<close>

text \<open>
  Claim C1. Whenever \<open>main\<close> returns, the four builders have all returned, in sequence,
  and the flag that \<open>main\<close> returns is the conjunction of their four results; the
  \<open>__main__\<close> block then exits with code 0 when that conjunction holds and with code 1
  otherwise.
\<close>

theorem main_success_is_conjunction:
  assumes "main E w = Inr (b, w')"
  shows "\<exists>w0 r1 w1 r2 w2 r3 w3 r4 w4.
      main_prepare w = Inr ((), w0)
    \<and> generate_current_hobby_architecture E w0 = Inr (r1, w1)
    \<and> generate_consolidated_architecture E w1 = Inr (r2, w2)
    \<and> generate_future_scaling_architecture E w2 = Inr (r3, w3)
    \<and> generate_corrected_neon_branching E w3 = Inr (r4, w4)
    \<and> b = (r1 \<and> r2 \<and> r3 \<and> r4)
    \<and> main_block E w = Inr (if r1 \<and> r2 \<and> r3 \<and> r4 then 0 else 1, w')"
proof -
  from main_Inr [OF assms] obtain w0 results w4 where
    p: "main_prepare w = Inr ((), w0)" and g: "main_generate E w0 = Inr (results, w4)"
    and r: "main_report results w4 = Inr (b, w')" by blast
  from main_generate_Inr [OF g] obtain r1 w1 r2 w2 r3 w3 r4 where
    c: "generate_current_hobby_architecture E w0 = Inr (r1, w1)"
       "generate_consolidated_architecture E w1 = Inr (r2, w2)"
       "generate_future_scaling_architecture E w2 = Inr (r3, w3)"
       "generate_corrected_neon_branching E w3 = Inr (r4, w4)"
    and res: "results = [(''Current Hobby Architecture'', r1), (''Consolidated Architecture'', r2),
                 (''Future Scaling Architecture'', r3), (''Corrected Neon Branching'', r4)]"
    by blast
  have b: "b = (r1 \<and> r2 \<and> r3 \<and> r4)"
    using main_report_Inr(1) [OF r] res by (cases r1; cases r2; cases r3; cases r4) simp_all
  have "main_block E w = Inr (if r1 \<and> r2 \<and> r3 \<and> r4 then 0 else 1, w')"
    using assms b by (simp add: main_block_def)
  with p c b show ?thesis by blast
qed



theorem main_success_is_conjunction_witness:
  "main_block ok_env (start [''repo''] [] repo_fs)
     = Inr (0, snd (projr (main ok_env (start [''repo''] [] repo_fs))))"
proof -
  from fresh_checkout_main obtain w' where
    m: "main ok_env (start [''repo''] [] repo_fs) = Inr (True, w')" ..
  from main_success_is_conjunction [OF m] m show ?thesis
    by auto
qed

end
